theory Spec2Isabelle
  imports Complex_Main
begin

section \<open>JavaScript values held by the client\<close>

text \<open>
  The client (\<^verbatim>\<open>src/sarmad/frontend/app.jsx\<close>) receives every event as the result of
  \<^verbatim>\<open>JSON.parse(event.data)\<close> and stores parts of it in React state without checking
  their shape, so state fields hold arbitrary JSON values. \<open>JUndefined\<close> is the value of a
  property that is absent. A number is only stored, compared with string literals and
  tested for truthiness by the code modelled here, so it is represented by the real number
  the parsed double denotes. An object is the list of its own properties; a property
  is looked up by name, and the first pair with the name is the property.
\<close>

datatype jsval =
    JUndefined
  | JNull
  | JBool bool
  | JNum real
  | JStr string
  | JArr "jsval list"
  | JObj "(string \<times> jsval) list"

datatype js_error = TypeError

text \<open>JavaScript truthiness: \<^verbatim>\<open>undefined\<close>, \<^verbatim>\<open>null\<close>, \<^verbatim>\<open>false\<close>, \<^verbatim>\<open>0\<close> and
  \<^verbatim>\<open>""\<close> are falsy, every other value (also \<^verbatim>\<open>[]\<close> and \<^verbatim>\<open>{}\<close>) is truthy.\<close>

fun truthy :: "jsval \<Rightarrow> bool" where
  "truthy JUndefined = False"
| "truthy JNull = False"
| "truthy (JBool b) = b"
| "truthy (JNum x) = (x \<noteq> 0)"
| "truthy (JStr s) = (s \<noteq> [])"
| "truthy (JArr xs) = True"
| "truthy (JObj kvs) = True"

fun nullish :: "jsval \<Rightarrow> bool" where
  "nullish JUndefined = True"
| "nullish JNull = True"
| "nullish v = False"

text \<open>
  The property read \<^verbatim>\<open>v.k\<close> on a value that is neither \<^verbatim>\<open>null\<close> nor
  \<^verbatim>\<open>undefined\<close>, for the property names the client reads from events and posts
  (\<^verbatim>\<open>type\<close>, \<^verbatim>\<open>status\<close>, \<^verbatim>\<open>data\<close>, \<^verbatim>\<open>keywords\<close>, \<^verbatim>\<open>bigrams\<close>, \<^verbatim>\<open>low_hour\<close>,
  \<^verbatim>\<open>high_hour\<close>, \<^verbatim>\<open>tweet\<close>, \<^verbatim>\<open>iterations\<close>, \<^verbatim>\<open>public_metrics\<close>, \<^verbatim>\<open>author\<close>, ...):
  none of them is inherited from a prototype, so an object yields its own property or
  \<^verbatim>\<open>undefined\<close>, and a primitive or an array yields \<^verbatim>\<open>undefined\<close>.
\<close>

fun field :: "jsval \<Rightarrow> string \<Rightarrow> jsval" where
  "field (JObj kvs) k = (case map_of kvs k of None \<Rightarrow> JUndefined | Some v \<Rightarrow> v)"
| "field v k = JUndefined"

text \<open>Where the base of a read may be \<^verbatim>\<open>null\<close> or \<^verbatim>\<open>undefined\<close>, JavaScript throws a
  TypeError; the definitions below test \<open>nullish\<close> first in those places.\<close>

text \<open>Optional chaining \<^verbatim>\<open>v?.k\<close>: \<^verbatim>\<open>undefined\<close> when the base is nullish.\<close>

definition opt_chain :: "jsval \<Rightarrow> string \<Rightarrow> jsval" where
  "opt_chain v k = (if nullish v then JUndefined else field v k)"

text \<open>\<^verbatim>\<open>a || b\<close>\<close>

definition js_or :: "jsval \<Rightarrow> jsval \<Rightarrow> jsval" where
  "js_or a b = (if truthy a then a else b)"

section \<open>Client state\<close>

text \<open>
  \<^verbatim>\<open>App\<close> keeps ten state variables (lines 527-536; \<open>keywords_st\<close> is the
  variable \<^verbatim>\<open>keywords\<close>, renamed because the word is reserved); \<^verbatim>\<open>useWebSocket\<close> adds
  \<^verbatim>\<open>isConnected\<close> and the socket in \<^verbatim>\<open>wsRef\<close>. The model adds what the handlers act on
  outside React: the messages handed to \<^verbatim>\<open>wsRef.current.send\<close>, in order (each recorded
  as the object given to \<^verbatim>\<open>JSON.stringify\<close>), and the query of the address bar as the
  name-value pairs \<^verbatim>\<open>URLSearchParams\<close> reads from \<^verbatim>\<open>window.location.search\<close>.
\<close>

record 'a SearchWindow =
  low_hour :: 'a
  high_hour :: 'a

datatype readyState = CONNECTING | OPEN | CLOSING | CLOSED

record App =
  status :: jsval
  logs :: "jsval list"
  keywords_st :: jsval
  bigrams :: jsval
  volumeData :: jsval
  searchWindow :: "jsval SearchWindow"
  sourceTweet :: jsval
  iterations :: jsval
  tweets :: jsval
  isNLPLoading :: bool
  isConnected :: bool
  wsRef :: "readyState option"
  sent :: "jsval list"
  location_search :: "(string \<times> string) list"

text \<open>The state after the first render, at a page address with the given query.\<close>

definition initial :: "(string \<times> string) list \<Rightarrow> App" where
  "initial query =
     \<lparr> status = JStr ''idle'',
       logs = [],
       keywords_st = JArr [],
       bigrams = JArr [],
       volumeData = JArr [],
       searchWindow = \<lparr> low_hour = JNum 0, high_hour = JNum 24 \<rparr>,
       sourceTweet = JNull,
       iterations = JNum 0,
       tweets = JArr [],
       isNLPLoading = False,
       isConnected = False,
       wsRef = None,
       sent = [],
       location_search = query \<rparr>"

section \<open>Handling inbound events (lines 543-588)\<close>

text \<open>
  The body of the effect that runs for a new \<^verbatim>\<open>lastMessage\<close> (which messages it
  runs for is the matter of the next section). The \<^verbatim>\<open>switch\<close> compares
  \<^verbatim>\<open>lastMessage.type\<close> with string literals by strict equality; a message whose type
  matches no case, and \<^verbatim>\<open>analysis_complete\<close>, change nothing. The calls of the state
  setters take effect in program order.
\<close>

definition handleMessage :: "jsval \<Rightarrow> App \<Rightarrow> App" where
  "handleMessage lastMessage s =
     (if \<not> truthy lastMessage then s
      else if field lastMessage ''type'' = JStr ''status'' then
        (let s' = s\<lparr> status := field lastMessage ''status'' \<rparr>
         in if field lastMessage ''status'' = JStr ''analyzing''
            then s'\<lparr> isNLPLoading := True \<rparr> else s')
      else if field lastMessage ''type'' = JStr ''log'' then
        s\<lparr> logs := logs s @ [lastMessage] \<rparr>
      else if field lastMessage ''type'' = JStr ''volume'' then
        s\<lparr> volumeData := field lastMessage ''data'' \<rparr>
      else if field lastMessage ''type'' = JStr ''nlp_result'' then
        s\<lparr> keywords_st := field lastMessage ''keywords'',
           bigrams := field lastMessage ''bigrams'',
           isNLPLoading := False \<rparr>
      else if field lastMessage ''type'' = JStr ''search_progress'' then
        s\<lparr> searchWindow := \<lparr> low_hour = field lastMessage ''low_hour'',
                              high_hour = field lastMessage ''high_hour'' \<rparr> \<rparr>
      else if field lastMessage ''type'' = JStr ''source_found'' then
        s\<lparr> sourceTweet := field lastMessage ''tweet'',
           iterations := field lastMessage ''iterations'' \<rparr>
      else if field lastMessage ''type'' = JStr ''tweets'' then
        s\<lparr> tweets := field lastMessage ''data'' \<rparr>
      else s)"

section \<open>Delivery of events (lines 136, 149-152 and 543-588)\<close>

text \<open>
  \<^verbatim>\<open>useWebSocket\<close> keeps one state cell for messages, \<^verbatim>\<open>lastMessage\<close>, at first
  \<^verbatim>\<open>null\<close>. \<^verbatim>\<open>onmessage\<close> parses the received text and overwrites the cell (lines
  149-152). The effect above has the dependency \<^verbatim>\<open>[lastMessage]\<close>: React runs it after a
  render in which the cell differs from what it was at the render before, with the value
  the cell has then. \<open>effect_due\<close> records that the cell was written since the effect last
  ran. (Every parsed object is a new object, so writing it changes the cell; writing the
  same primitive again does not, and the effect changes nothing on a primitive.)
\<close>

record Page =
  app :: App
  lastMessage :: jsval
  effect_due :: bool

definition page :: "(string \<times> string) list \<Rightarrow> Page" where
  "page query = \<lparr> app = initial query, lastMessage = JNull, effect_due = False \<rparr>"

definition onmessage :: "jsval \<Rightarrow> Page \<Rightarrow> Page" where
  "onmessage parsed p = p\<lparr> lastMessage := parsed, effect_due := True \<rparr>"

definition render :: "Page \<Rightarrow> Page" where
  "render p =
     (if effect_due p
      then p\<lparr> app := handleMessage (lastMessage p) (app p), effect_due := False \<rparr>
      else p)"

text \<open>What happens to the page, in order: a message arrives, or React renders.\<close>

datatype occurrence = Arrives jsval | Renders

fun run :: "occurrence list \<Rightarrow> Page \<Rightarrow> Page" where
  "run [] p = p"
| "run (Arrives parsed # rest) p = run rest (onmessage parsed p)"
| "run (Renders # rest) p = run rest (render p)"

section \<open>Outbound requests\<close>

text \<open>\<^verbatim>\<open>sendMessage\<close> (lines 169-173) sends only when there is a socket and it is open;
  otherwise the message is dropped.\<close>

definition sendMessage :: "jsval \<Rightarrow> App \<Rightarrow> App" where
  "sendMessage message s =
     (if wsRef s = Some OPEN then s\<lparr> sent := sent s @ [message] \<rparr> else s)"

text \<open>\<^verbatim>\<open>handleStartAnalysis(url, tweetId = null)\<close> (lines 610-625): the default applies
  when the second argument is \<^verbatim>\<open>undefined\<close>.\<close>

definition handleStartAnalysis :: "jsval \<Rightarrow> jsval \<Rightarrow> App \<Rightarrow> App" where
  "handleStartAnalysis url tweetId s =
     sendMessage
       (JObj [(''action'', JStr ''start_analysis''),
              (''tweet_url'', url),
              (''tweet_id'', if tweetId = JUndefined then JNull else tweetId)])
       (s\<lparr> logs := [],
           keywords_st := JArr [],
           bigrams := JArr [],
           sourceTweet := JNull,
           iterations := JNum 0,
           searchWindow := \<lparr> low_hour = JNum 0, high_hour = JNum 24 \<rparr> \<rparr>)"

section \<open>Effects of the connection (lines 144-147 and 591-608)\<close>

text \<open>\<^verbatim>\<open>new URLSearchParams(window.location.search).get(name)\<close>: the first value stored
  under the name, \<^verbatim>\<open>null\<close> (here \<open>None\<close>) when there is none.\<close>

definition URLSearchParams_get :: "(string \<times> string) list \<Rightarrow> string \<Rightarrow> string option" where
  "URLSearchParams_get query name = map_of query name"

text \<open>
  The effect with dependencies \<^verbatim>\<open>[isConnected, sendMessage]\<close>. \<^verbatim>\<open>tweetId\<close> is a string
  or \<^verbatim>\<open>null\<close>, so it is truthy when it is a non-empty string.
  \<^verbatim>\<open>history.replaceState({}, document.title, window.location.pathname)\<close> leaves the bare
  path in the address bar: the whole query is gone.
\<close>

definition connectedEffect :: "App \<Rightarrow> App" where
  "connectedEffect s =
     (if isConnected s then
        (let s1 = sendMessage (JObj [(''action'', JStr ''get_tweets''), (''limit'', JNum 50)]) s;
             s2 = sendMessage (JObj [(''action'', JStr ''get_volume'')]) s1
         in case URLSearchParams_get (location_search s2) ''tweet'' of
              None \<Rightarrow> s2
            | Some tweetId \<Rightarrow>
                if tweetId \<noteq> [] \<and> status s2 = JStr ''idle''
                then handleStartAnalysis JNull (JStr tweetId) (s2\<lparr> location_search := [] \<rparr>)
                else s2)
      else s)"

text \<open>
  The socket opens: the browser has set its \<^verbatim>\<open>readyState\<close> to \<^verbatim>\<open>OPEN\<close>, and
  \<^verbatim>\<open>onopen\<close> calls \<^verbatim>\<open>setIsConnected(true)\<close>. When that changes \<^verbatim>\<open>isConnected\<close>,
  React renders again and runs the effect above; no other event is taken to arrive in
  between.
\<close>

definition ws_onopen :: "App \<Rightarrow> App" where
  "ws_onopen s =
     (let s' = s\<lparr> wsRef := Some OPEN, isConnected := True \<rparr>
      in if isConnected s then s' else connectedEffect s')"

section \<open>The report form (lines 483-523, 627 and 661)\<close>




section \<open>The status badge (lines 192-208)\<close>






section \<open>Posts in the feed (lines 393-397 and 736-742)\<close>

text \<open>
  The three expressions of lines 394-396, whose values \<^verbatim>\<open>TweetCard\<close> hands to React as
  the retweet, like and reply counts of the post (React shows a number or a string as
  text). Reading \<^verbatim>\<open>tweet.public_metrics\<close> throws when \<^verbatim>\<open>tweet\<close> is \<^verbatim>\<open>null\<close> or
  \<^verbatim>\<open>undefined\<close>. The rest of the card (avatar, names, time, text, media preview) is not
  modelled.
\<close>

definition retweet_shown :: "jsval \<Rightarrow> js_error + jsval" where
  "retweet_shown tweet =
     (if nullish tweet then Inl TypeError
      else Inr (js_or (opt_chain (field tweet ''public_metrics'') ''retweet_count'') (JNum 0)))"

definition like_shown :: "jsval \<Rightarrow> js_error + jsval" where
  "like_shown tweet =
     (if nullish tweet then Inl TypeError
      else Inr (js_or (opt_chain (field tweet ''public_metrics'') ''like_count'') (JNum 0)))"

definition reply_shown :: "jsval \<Rightarrow> js_error + jsval" where
  "reply_shown tweet =
     (if nullish tweet then Inl TypeError
      else Inr (js_or (opt_chain (field tweet ''public_metrics'') ''reply_count'') (JNum 0)))"

text \<open>
  React turns the key of an element into a string (\<^verbatim>\<open>'' + key\<close>). Converting an object
  to a string calls its \<^verbatim>\<open>toString\<close>; a parsed object that has a property of that name
  of its own hides the inherited function with a value that cannot be called, and the
  conversion throws a TypeError. An array is converted by converting its elements, except
  \<^verbatim>\<open>null\<close>.
\<close>

fun coercion_throws :: "jsval \<Rightarrow> bool" where
  "coercion_throws (JObj kvs) = (''toString'' \<in> fst ` set kvs)"
| "coercion_throws (JArr xs) = list_ex coercion_throws xs"
| "coercion_throws v = False"

text \<open>
  The element that the callback of \<^verbatim>\<open>map\<close> creates for the post at index \<open>i\<close> (lines
  737-741): its key \<^verbatim>\<open>tweet.id || i\<close> (kept here as the value before React turns it
  into a string), the post, and \<^verbatim>\<open>tweet.is_source && status === 'found'\<close>. Reading
  \<^verbatim>\<open>tweet.id\<close> of \<^verbatim>\<open>null\<close> throws.
\<close>

record TweetCard_props =
  key_prop :: jsval
  tweet_prop :: jsval
  isSource_prop :: jsval

definition TweetCard_element :: "App \<Rightarrow> nat \<Rightarrow> jsval \<Rightarrow> js_error + TweetCard_props" where
  "TweetCard_element s i tweet =
     (if nullish tweet then Inl TypeError
      else if coercion_throws (js_or (field tweet ''id'') (JNum (real i))) then Inl TypeError
      else Inr
        \<lparr> key_prop = js_or (field tweet ''id'') (JNum (real i)),
          tweet_prop = tweet,
          isSource_prop =
            (if truthy (field tweet ''is_source'') then JBool (status s = JStr ''found'')
             else field tweet ''is_source'') \<rparr>)"

text \<open>Evaluating the elements of a list in order; the first error ends it.\<close>

fun render_all :: "('a \<Rightarrow> js_error + 'b) \<Rightarrow> 'a list \<Rightarrow> js_error + 'b list" where
  "render_all f [] = Inr []"
| "render_all f (x # xs) =
     (case f x of
        Inl e \<Rightarrow> Inl e
      | Inr y \<Rightarrow> (case render_all f xs of Inl e \<Rightarrow> Inl e | Inr ys \<Rightarrow> Inr (y # ys)))"

text \<open>
  The feed of \<^verbatim>\<open>App\<close>: the list of \<^verbatim>\<open>TweetCard\<close> elements that
  \<^verbatim>\<open>tweets.slice(0, 30).map(...)\<close> creates, each with its index. \<^verbatim>\<open>tweets\<close> is whatever
  the last \<^verbatim>\<open>tweets\<close> event carried as \<^verbatim>\<open>data\<close>; when it is not an array, \<^verbatim>\<open>slice\<close>
  or \<^verbatim>\<open>map\<close> is not a function and the render throws. What React then shows for an
  element is the render of \<^verbatim>\<open>TweetCard\<close> for its post, which is not modelled and can
  throw in turn.
\<close>

definition TweetFeed :: "App \<Rightarrow> js_error + TweetCard_props list" where
  "TweetFeed s =
     (case tweets s of
        JArr xs \<Rightarrow>
          render_all (\<lambda>(i, tweet). TweetCard_element s i tweet) (enumerate 0 (take 30 xs))
      | _ \<Rightarrow> Inl TypeError)"

section \<open>The engine, as the specification describes it\<close>

text \<open>
  Modelled from the spec: the Window Narrowing Search of section 4.3
  (\<^verbatim>\<open>backend/search_algorithm.py\<close> is not among the sources). Hours are real numbers.
  What the specification leaves open is a parameter: which posts match the fingerprint,
  the hour of a post, the tie-break between two non-empty partitions, the minimum
  resolution and the iteration cap.
\<close>

record 'p search_config =
  matches :: "'p \<Rightarrow> bool"
  hour_of :: "'p \<Rightarrow> real"
  prefer_later :: "'p list \<Rightarrow> 'p list \<Rightarrow> bool"
  resolution :: real
  max_iterations :: nat

text \<open>
  Modelled from the spec: one iteration (step 2). \<open>mid\<close> is the midpoint; matching posts
  before it move \<open>high_hour\<close> down to it, otherwise \<open>low_hour\<close> moves up to it; when both
  partitions are non-empty the tie-break may prefer the later one.
\<close>

definition narrow :: "'p search_config \<Rightarrow> 'p list \<Rightarrow> real SearchWindow \<Rightarrow> real SearchWindow" where
  "narrow cfg corpus w =
     (let mid = (low_hour w + high_hour w) / 2;
          earlier = filter (\<lambda>p. matches cfg p \<and> hour_of cfg p < mid) corpus;
          later = filter (\<lambda>p. matches cfg p \<and> mid \<le> hour_of cfg p) corpus
      in if earlier \<noteq> [] \<and> later \<noteq> [] \<and> prefer_later cfg earlier later
         then w\<lparr> low_hour := mid \<rparr>
         else if earlier \<noteq> [] then w\<lparr> high_hour := mid \<rparr>
         else w\<lparr> low_hour := mid \<rparr>)"

text \<open>
  Modelled from the spec: the loop (steps 2 and 3), as the list of the windows after each
  iteration. It stops when the window is narrower than the resolution or when the
  iteration cap is used up.
\<close>

fun narrowing_loop :: "'p search_config \<Rightarrow> 'p list \<Rightarrow> nat \<Rightarrow> real SearchWindow \<Rightarrow> real SearchWindow list" where
  "narrowing_loop cfg corpus 0 w = []"
| "narrowing_loop cfg corpus (Suc n) w =
     (if high_hour w - low_hour w < resolution cfg then []
      else (let w' = narrow cfg corpus w in w' # narrowing_loop cfg corpus n w'))"

text \<open>
  Modelled from the spec: the windows of a run, the initial one first (step 1). When no
  post matches at all the run ends at once.
\<close>

definition search_windows :: "'p search_config \<Rightarrow> 'p list \<Rightarrow> real SearchWindow list" where
  "search_windows cfg corpus =
     (let w0 = \<lparr> low_hour = 0, high_hour = 24 \<rparr>
      in w0 # (if filter (matches cfg) corpus = [] then []
               else narrowing_loop cfg corpus (max_iterations cfg) w0))"





section \<open>Theorems\<close>

subsection \<open>Reading events\<close>

lemma typed_message_truthy: "field m k = JStr t \<Longrightarrow> truthy m"
  by (cases m) simp_all

lemma handleMessage_logs:
  "logs (handleMessage m s) =
     (if field m ''type'' = JStr ''log'' then logs s @ [m] else logs s)"
  by (cases "truthy m") (auto simp: handleMessage_def Let_def dest: typed_message_truthy)

text \<open>
  C4. Handling an event of type \<^verbatim>\<open>search_progress\<close> sets the search window to the
  event's \<^verbatim>\<open>low_hour\<close> and \<^verbatim>\<open>high_hour\<close> and changes nothing else: the resulting state
  is the old one with only the window replaced, so the status, the logs, the keywords, the
  bigrams, the volume data, the source tweet, the iteration count and the tweet feed are
  the same as before.
\<close>

theorem search_progress_frame:
  assumes "field m ''type'' = JStr ''search_progress''"
  shows "handleMessage m s =
           s\<lparr> searchWindow := \<lparr> low_hour = field m ''low_hour'',
                                 high_hour = field m ''high_hour'' \<rparr> \<rparr>
         \<and> searchWindow (handleMessage m s) =
             \<lparr> low_hour = field m ''low_hour'', high_hour = field m ''high_hour'' \<rparr>
         \<and> status (handleMessage m s) = status s
         \<and> logs (handleMessage m s) = logs s
         \<and> keywords_st (handleMessage m s) = keywords_st s
         \<and> bigrams (handleMessage m s) = bigrams s
         \<and> volumeData (handleMessage m s) = volumeData s
         \<and> sourceTweet (handleMessage m s) = sourceTweet s
         \<and> iterations (handleMessage m s) = iterations s
         \<and> tweets (handleMessage m s) = tweets s"
  using assms typed_message_truthy [OF assms]
  by (simp add: handleMessage_def)

theorem search_progress_frame_witness:
  "handleMessage
     (JObj [(''type'', JStr ''search_progress''), (''low_hour'', JNum 6), (''high_hour'', JNum 12)])
     (initial [])
   = (initial []) \<lparr> searchWindow := \<lparr> low_hour = JNum 6, high_hour = JNum 12 \<rparr> \<rparr>"
  using search_progress_frame
    [of "JObj [(''type'', JStr ''search_progress''), (''low_hour'', JNum 6), (''high_hour'', JNum 12)]"
        "initial []"]
  by simp

text \<open>
  C5. The effect appends a \<^verbatim>\<open>log\<close> event that it handles at the end of the log sequence
  and leaves the entries already there as they are (lemma \<open>handleMessage_logs\<close>). But not
  every inbound event is handled. Two \<^verbatim>\<open>log\<close> events that arrive with no render between
  them: the second overwrites the first in \<^verbatim>\<open>lastMessage\<close>, the effect runs once, and
  only the second is appended. With a render between them both are appended, in order.
\<close>

theorem log_event_lost:
  "logs (app (run [Arrives (JObj [(''type'', JStr ''log''), (''message'', JStr ''a'')]),
                   Arrives (JObj [(''type'', JStr ''log''), (''message'', JStr ''b'')]),
                   Renders]
                (page [])))
     = [JObj [(''type'', JStr ''log''), (''message'', JStr ''b'')]]
   \<and> logs (app (run [Arrives (JObj [(''type'', JStr ''log''), (''message'', JStr ''a'')]),
                     Renders,
                     Arrives (JObj [(''type'', JStr ''log''), (''message'', JStr ''b'')]),
                     Renders]
                  (page [])))
     = [JObj [(''type'', JStr ''log''), (''message'', JStr ''a'')],
        JObj [(''type'', JStr ''log''), (''message'', JStr ''b'')]]"
  by (simp add: page_def initial_def onmessage_def render_def handleMessage_logs)

text \<open>
  C7. Handling an event of type \<^verbatim>\<open>source_found\<close> sets the source candidate to the
  event's \<^verbatim>\<open>tweet\<close> and the iteration count to the event's \<^verbatim>\<open>iterations\<close>.
\<close>

theorem source_found_sets_candidate:
  assumes "field m ''type'' = JStr ''source_found''"
  shows "sourceTweet (handleMessage m s) = field m ''tweet''
         \<and> iterations (handleMessage m s) = field m ''iterations''"
  using assms typed_message_truthy [OF assms]
  by (simp add: handleMessage_def)

theorem source_found_sets_candidate_witness:
  "sourceTweet
     (handleMessage
        (JObj [(''type'', JStr ''source_found''),
               (''tweet'', JObj [(''id'', JStr ''42'')]),
               (''iterations'', JNum 7)])
        (initial []))
     = JObj [(''id'', JStr ''42'')]
   \<and> iterations
       (handleMessage
          (JObj [(''type'', JStr ''source_found''),
                 (''tweet'', JObj [(''id'', JStr ''42'')]),
                 (''iterations'', JNum 7)])
          (initial []))
     = JNum 7"
  using source_found_sets_candidate
    [of "JObj [(''type'', JStr ''source_found''),
               (''tweet'', JObj [(''id'', JStr ''42'')]),
               (''iterations'', JNum 7)]"
        "initial []"]
  by simp

subsection \<open>Starting an analysis\<close>

text \<open>
  C2. \<^verbatim>\<open>handleStartAnalysis\<close> discards the previous run before it sends the request:
  the request is handed to \<^verbatim>\<open>sendMessage\<close> in a state whose logs, keywords and bigrams
  are empty, whose source tweet is \<^verbatim>\<open>null\<close>, whose iteration count is 0 and whose
  search window is 0 to 24; the same holds of the state it returns, and the only message
  it sends (when the socket is open) is that \<^verbatim>\<open>start_analysis\<close> request.
\<close>

theorem handleStartAnalysis_resets:
  "(\<exists>s0. handleStartAnalysis url tweetId s =
           sendMessage
             (JObj [(''action'', JStr ''start_analysis''), (''tweet_url'', url),
                    (''tweet_id'', if tweetId = JUndefined then JNull else tweetId)]) s0
         \<and> logs s0 = [] \<and> keywords_st s0 = JArr [] \<and> bigrams s0 = JArr []
         \<and> sourceTweet s0 = JNull \<and> iterations s0 = JNum 0
         \<and> searchWindow s0 = \<lparr> low_hour = JNum 0, high_hour = JNum 24 \<rparr>
         \<and> sent s0 = sent s)
   \<and> logs (handleStartAnalysis url tweetId s) = []
   \<and> keywords_st (handleStartAnalysis url tweetId s) = JArr []
   \<and> bigrams (handleStartAnalysis url tweetId s) = JArr []
   \<and> sourceTweet (handleStartAnalysis url tweetId s) = JNull
   \<and> iterations (handleStartAnalysis url tweetId s) = JNum 0
   \<and> searchWindow (handleStartAnalysis url tweetId s)
       = \<lparr> low_hour = JNum 0, high_hour = JNum 24 \<rparr>
   \<and> sent (handleStartAnalysis url tweetId s) =
       (if wsRef s = Some OPEN
        then sent s @ [JObj [(''action'', JStr ''start_analysis''), (''tweet_url'', url),
                             (''tweet_id'', if tweetId = JUndefined then JNull else tweetId)]]
        else sent s)"
proof -
  let ?s0 = "s\<lparr> logs := [], keywords_st := JArr [], bigrams := JArr [], sourceTweet := JNull,
                iterations := JNum 0,
                searchWindow := \<lparr> low_hour = JNum 0, high_hour = JNum 24 \<rparr> \<rparr>"
  have "handleStartAnalysis url tweetId s =
          sendMessage
            (JObj [(''action'', JStr ''start_analysis''), (''tweet_url'', url),
                   (''tweet_id'', if tweetId = JUndefined then JNull else tweetId)]) ?s0"
    by (simp add: handleStartAnalysis_def)
  moreover have "logs ?s0 = [] \<and> keywords_st ?s0 = JArr [] \<and> bigrams ?s0 = JArr []
         \<and> sourceTweet ?s0 = JNull \<and> iterations ?s0 = JNum 0
         \<and> searchWindow ?s0 = \<lparr> low_hour = JNum 0, high_hour = JNum 24 \<rparr>
         \<and> sent ?s0 = sent s"
    by simp
  ultimately have before: "\<exists>s0. handleStartAnalysis url tweetId s =
           sendMessage
             (JObj [(''action'', JStr ''start_analysis''), (''tweet_url'', url),
                    (''tweet_id'', if tweetId = JUndefined then JNull else tweetId)]) s0
         \<and> logs s0 = [] \<and> keywords_st s0 = JArr [] \<and> bigrams s0 = JArr []
         \<and> sourceTweet s0 = JNull \<and> iterations s0 = JNum 0
         \<and> searchWindow s0 = \<lparr> low_hour = JNum 0, high_hour = JNum 24 \<rparr>
         \<and> sent s0 = sent s"
    by blast
  show ?thesis
    using before by (simp add: handleStartAnalysis_def sendMessage_def)
qed

subsection \<open>The status badge\<close>





subsection \<open>Posts\<close>

lemma field_other_property:
  "k \<noteq> k' \<Longrightarrow> field (JObj ((k', e) # kvs)) k = field (JObj kvs) k"
  by simp

lemma opt_chain_no_record: "(\<forall>pm. v \<noteq> JObj pm) \<Longrightarrow> opt_chain v k = JUndefined"
  by (cases v) (simp_all add: opt_chain_def)

lemma opt_chain_record: "opt_chain (JObj pm) k = field (JObj pm) k"
  by (simp add: opt_chain_def)

text \<open>
  C8, as the claim states it, fails: for a post that carries its counts in an
  \<^verbatim>\<open>engagement_metrics\<close> record with \<^verbatim>\<open>reply\<close>, \<^verbatim>\<open>retweet\<close> and \<^verbatim>\<open>like\<close>, the counts
  shown are 0 retweets, 0 likes and 0 replies.
\<close>

theorem engagement_metrics_not_read:
  "retweet_shown
     (JObj [(''id'', JStr ''1''),
            (''engagement_metrics'',
               JObj [(''reply'', JNum 5), (''retweet'', JNum 7), (''like'', JNum 9)])])
     = Inr (JNum 0)
   \<and> like_shown
       (JObj [(''id'', JStr ''1''),
              (''engagement_metrics'',
                 JObj [(''reply'', JNum 5), (''retweet'', JNum 7), (''like'', JNum 9)])])
     = Inr (JNum 0)
   \<and> reply_shown
       (JObj [(''id'', JStr ''1''),
              (''engagement_metrics'',
                 JObj [(''reply'', JNum 5), (''retweet'', JNum 7), (''like'', JNum 9)])])
     = Inr (JNum 0)"
  by (simp add: retweet_shown_def like_shown_def reply_shown_def opt_chain_def js_or_def)

text \<open>
  C8, amended. The counts shown for a post are read from its \<^verbatim>\<open>public_metrics\<close> record,
  fields \<^verbatim>\<open>retweet_count\<close>, \<^verbatim>\<open>like_count\<close> and \<^verbatim>\<open>reply_count\<close>: each is the field when
  the field is truthy and 0 when it is missing or falsy; all three are 0 when
  \<^verbatim>\<open>public_metrics\<close> is missing or is not an object (\<^verbatim>\<open>null\<close>, \<^verbatim>\<open>false\<close>, \<^verbatim>\<open>0\<close>, a
  string, an array); and an \<^verbatim>\<open>engagement_metrics\<close> property of the post, whatever it
  holds, changes none of them.
\<close>

theorem counts_from_public_metrics:
  assumes "\<not> nullish tweet"
  shows "\<exists>r l p. retweet_shown tweet = Inr r \<and> like_shown tweet = Inr l \<and> reply_shown tweet = Inr p
     \<and> (\<forall>pm. field tweet ''public_metrics'' = JObj pm \<longrightarrow>
           r = (if truthy (field (JObj pm) ''retweet_count'')
                then field (JObj pm) ''retweet_count'' else JNum 0)
         \<and> l = (if truthy (field (JObj pm) ''like_count'')
                then field (JObj pm) ''like_count'' else JNum 0)
         \<and> p = (if truthy (field (JObj pm) ''reply_count'')
                then field (JObj pm) ''reply_count'' else JNum 0))
     \<and> ((\<forall>pm. field tweet ''public_metrics'' \<noteq> JObj pm) \<longrightarrow>
           r = JNum 0 \<and> l = JNum 0 \<and> p = JNum 0)
     \<and> (\<forall>kvs e. tweet = JObj kvs \<longrightarrow>
           retweet_shown (JObj ((''engagement_metrics'', e) # kvs)) = Inr r
         \<and> like_shown (JObj ((''engagement_metrics'', e) # kvs)) = Inr l
         \<and> reply_shown (JObj ((''engagement_metrics'', e) # kvs)) = Inr p)"
proof -
  let ?r = "js_or (opt_chain (field tweet ''public_metrics'') ''retweet_count'') (JNum 0)"
  let ?l = "js_or (opt_chain (field tweet ''public_metrics'') ''like_count'') (JNum 0)"
  let ?p = "js_or (opt_chain (field tweet ''public_metrics'') ''reply_count'') (JNum 0)"
  have shown: "retweet_shown tweet = Inr ?r" "like_shown tweet = Inr ?l"
    "reply_shown tweet = Inr ?p"
    using assms by (simp_all add: retweet_shown_def like_shown_def reply_shown_def)
  have present: "\<forall>pm. field tweet ''public_metrics'' = JObj pm \<longrightarrow>
           ?r = (if truthy (field (JObj pm) ''retweet_count'')
                then field (JObj pm) ''retweet_count'' else JNum 0)
         \<and> ?l = (if truthy (field (JObj pm) ''like_count'')
                then field (JObj pm) ''like_count'' else JNum 0)
         \<and> ?p = (if truthy (field (JObj pm) ''reply_count'')
                then field (JObj pm) ''reply_count'' else JNum 0)"
    by (simp add: opt_chain_record js_or_def)
  have absent: "(\<forall>pm. field tweet ''public_metrics'' \<noteq> JObj pm) \<longrightarrow>
           ?r = JNum 0 \<and> ?l = JNum 0 \<and> ?p = JNum 0"
    by (simp add: opt_chain_no_record js_or_def)
  have other: "\<forall>kvs e. tweet = JObj kvs \<longrightarrow>
           retweet_shown (JObj ((''engagement_metrics'', e) # kvs)) = Inr ?r
         \<and> like_shown (JObj ((''engagement_metrics'', e) # kvs)) = Inr ?l
         \<and> reply_shown (JObj ((''engagement_metrics'', e) # kvs)) = Inr ?p"
  proof (intro allI impI)
    fix kvs e
    assume t: "tweet = JObj kvs"
    have same: "field (JObj ((''engagement_metrics'', e) # kvs)) ''public_metrics''
                  = field tweet ''public_metrics''"
      unfolding t by (rule field_other_property) simp
    show "retweet_shown (JObj ((''engagement_metrics'', e) # kvs)) = Inr ?r
         \<and> like_shown (JObj ((''engagement_metrics'', e) # kvs)) = Inr ?l
         \<and> reply_shown (JObj ((''engagement_metrics'', e) # kvs)) = Inr ?p"
      unfolding retweet_shown_def like_shown_def reply_shown_def same by simp
  qed
  from shown present absent other show ?thesis by blast
qed

theorem counts_from_public_metrics_witness:
  "retweet_shown
     (JObj [(''public_metrics'',
               JObj [(''retweet_count'', JNum 7), (''like_count'', JNum 9),
                     (''reply_count'', JNum 0)])]) = Inr (JNum 7)
   \<and> like_shown
       (JObj [(''public_metrics'',
                 JObj [(''retweet_count'', JNum 7), (''like_count'', JNum 9),
                       (''reply_count'', JNum 0)])]) = Inr (JNum 9)
   \<and> reply_shown
       (JObj [(''public_metrics'',
                 JObj [(''retweet_count'', JNum 7), (''like_count'', JNum 9),
                       (''reply_count'', JNum 0)])]) = Inr (JNum 0)"
proof -
  let ?t = "JObj [(''public_metrics'',
               JObj [(''retweet_count'', JNum 7), (''like_count'', JNum 9),
                     (''reply_count'', JNum 0)])]"
  have "\<not> nullish ?t" by simp
  from counts_from_public_metrics [OF this] obtain r l p where
    shown: "retweet_shown ?t = Inr r" "like_shown ?t = Inr l" "reply_shown ?t = Inr p"
    and present: "\<forall>pm. field ?t ''public_metrics'' = JObj pm \<longrightarrow>
           r = (if truthy (field (JObj pm) ''retweet_count'')
                then field (JObj pm) ''retweet_count'' else JNum 0)
         \<and> l = (if truthy (field (JObj pm) ''like_count'')
                then field (JObj pm) ''like_count'' else JNum 0)
         \<and> p = (if truthy (field (JObj pm) ''reply_count'')
                then field (JObj pm) ''reply_count'' else JNum 0)"
    by blast
  from present have "r = JNum 7 \<and> l = JNum 9 \<and> p = JNum 0" by simp
  with shown show ?thesis by simp
qed

subsection \<open>The narrowing search of the specification\<close>

lemma narrow_inside:
  assumes "low_hour w \<le> high_hour w"
  shows "low_hour w \<le> low_hour (narrow cfg corpus w)
         \<and> high_hour (narrow cfg corpus w) \<le> high_hour w
         \<and> low_hour (narrow cfg corpus w) \<le> high_hour (narrow cfg corpus w)"
  using assms by (simp add: narrow_def Let_def)

lemma narrowing_chain:
  "low_hour w \<le> high_hour w \<Longrightarrow>
     successively (\<lambda>w w'. low_hour w \<le> low_hour w' \<and> high_hour w' \<le> high_hour w
       \<and> {low_hour w' .. high_hour w'} \<subseteq> {low_hour w .. high_hour w})
       (w # narrowing_loop cfg corpus n w)
     \<and> list_all (\<lambda>w. low_hour w \<le> high_hour w) (w # narrowing_loop cfg corpus n w)"
proof (induction n arbitrary: w)
  case 0
  then show ?case by simp
next
  case (Suc n)
  show ?case
  proof (cases "high_hour w - low_hour w < resolution cfg")
    case True
    with Suc.prems show ?thesis by simp
  next
    case False
    let ?w' = "narrow cfg corpus w"
    from narrow_inside [OF Suc.prems, of cfg corpus]
    have in': "low_hour w \<le> low_hour ?w'" "high_hour ?w' \<le> high_hour w"
      "low_hour ?w' \<le> high_hour ?w'" by simp_all
    from Suc.IH [OF in'(3)] in' False Suc.prems show ?thesis
      by (simp add: Let_def)
  qed
qed

text \<open>
  C3. In the narrowing search as the specification describes it, every window of a run
  lies inside the one before it (its lower bound is no smaller, its upper bound no
  larger, so the interval is a subset), and \<open>low_hour \<le> high_hour\<close> holds for every window
  of the run, from the initial one to the last.
\<close>

theorem search_window_narrows:
  "successively (\<lambda>w w'. low_hour w \<le> low_hour w' \<and> high_hour w' \<le> high_hour w
       \<and> {low_hour w' .. high_hour w'} \<subseteq> {low_hour w .. high_hour w})
     (search_windows cfg corpus)
   \<and> list_all (\<lambda>w. low_hour w \<le> high_hour w) (search_windows cfg corpus)"
proof (cases "filter (matches cfg) corpus = []")
  case True
  then show ?thesis by (simp add: search_windows_def)
next
  case False
  have "low_hour \<lparr> low_hour = 0::real, high_hour = 24 \<rparr>
          \<le> high_hour \<lparr> low_hour = 0::real, high_hour = 24 \<rparr>"
    by simp
  from narrowing_chain [OF this, of cfg corpus "max_iterations cfg"] False
  show ?thesis by (simp add: search_windows_def Let_def)
qed

text \<open>A run over one matching post at hour 21, cut off after two iterations.\<close>

theorem search_window_narrows_witness:
  "search_windows
     \<lparr> matches = (\<lambda>p. True), hour_of = (\<lambda>p::real. p), prefer_later = (\<lambda>a b. False),
       resolution = 1 / 10, max_iterations = 2 \<rparr> [21]
     = [\<lparr> low_hour = 0, high_hour = 24 \<rparr>, \<lparr> low_hour = 12, high_hour = 24 \<rparr>,
        \<lparr> low_hour = 18, high_hour = 24 \<rparr>]
   \<and> successively (\<lambda>w w'. low_hour w \<le> low_hour w' \<and> high_hour w' \<le> high_hour w
       \<and> {low_hour w' .. high_hour w'} \<subseteq> {low_hour w .. high_hour w})
       [\<lparr> low_hour = 0::real, high_hour = 24 \<rparr>, \<lparr> low_hour = 12, high_hour = 24 \<rparr>,
        \<lparr> low_hour = 18, high_hour = 24 \<rparr>]"
proof -
  have run: "search_windows
     \<lparr> matches = (\<lambda>p. True), hour_of = (\<lambda>p::real. p), prefer_later = (\<lambda>a b. False),
       resolution = 1 / 10, max_iterations = 2 \<rparr> [21]
     = [\<lparr> low_hour = 0, high_hour = 24 \<rparr>, \<lparr> low_hour = 12, high_hour = 24 \<rparr>,
        \<lparr> low_hour = 18, high_hour = 24 \<rparr>]"
    by (simp add: search_windows_def narrow_def Let_def numeral_2_eq_2)
  from search_window_narrows
    [of "\<lparr> matches = (\<lambda>p. True), hour_of = (\<lambda>p::real. p), prefer_later = (\<lambda>a b. False),
           resolution = 1 / 10, max_iterations = 2 \<rparr>" "[21]"]
  show ?thesis unfolding run by simp
qed

subsection \<open>The feed\<close>

lemma render_all_Inr:
  "render_all f xs = Inr ys \<longleftrightarrow> list_all2 (\<lambda>x y. f x = Inr y) xs ys"
proof (induction xs arbitrary: ys)
  case Nil
  then show ?case by auto
next
  case (Cons x xs)
  show ?case
  proof (cases "f x")
    case (Inl e)
    then show ?thesis by (auto simp: list_all2_Cons1)
  next
    case (Inr y)
    show ?thesis
    proof (cases "render_all f xs")
      case (Inl e)
      with Inr Cons.IH show ?thesis by (auto simp: list_all2_Cons1)
    next
      case r: (Inr zs)
      with Inr Cons.IH show ?thesis by (auto simp: list_all2_Cons1)
    qed
  qed
qed

lemma render_all_total:
  "(\<forall>x\<in>set xs. \<exists>y. f x = Inr y) \<Longrightarrow> \<exists>ys. render_all f xs = Inr ys"
  by (induction xs) auto

lemma list_all2_map_back:
  "list_all2 (\<lambda>x y. g y = h x) xs ys \<Longrightarrow> map g ys = map h xs"
  by (induction rule: list_all2_induct) simp_all

lemma TweetCard_element_tweet: "TweetCard_element s i t = Inr c \<Longrightarrow> tweet_prop c = t"
  by (auto simp: TweetCard_element_def split: if_splits)

lemma TweetCard_element_tweets:
  "TweetCard_element (s\<lparr> tweets := x \<rparr>) = TweetCard_element s"
  by (simp add: fun_eq_iff TweetCard_element_def)

lemma TweetFeed_array:
  "tweets s = JArr xs \<Longrightarrow>
   TweetFeed s =
     render_all (\<lambda>(i, tweet). TweetCard_element s i tweet) (enumerate 0 (take 30 xs))"
  by (simp add: TweetFeed_def)

text \<open>
  C9. When the stored tweet list is an array, the feed creates cards for its first 30
  elements only, in order (for fewer than 30, all of them): a feed that is built has at
  most 30 cards, the card at each position is given the post at that position of the
  list, and the posts at index 30 and beyond have no effect on the feed, built or not.
  The request the client sends for the list when the connection is up is
  \<^verbatim>\<open>get_tweets\<close> with \<^verbatim>\<open>limit: 50\<close>, and the list stored is the \<^verbatim>\<open>data\<close> of the
  \<^verbatim>\<open>tweets\<close> event received.
\<close>

theorem feed_shows_first_30:
  assumes "tweets s = JArr xs"
  shows "(\<forall>cards. TweetFeed s = Inr cards \<longrightarrow>
            map tweet_prop cards = take 30 xs \<and> length cards \<le> 30)
    \<and> TweetFeed s = TweetFeed (s\<lparr> tweets := JArr (take 30 xs) \<rparr>)
    \<and> (isConnected s \<and> wsRef s = Some OPEN \<longrightarrow>
         (\<exists>rest. sent (connectedEffect s) =
            sent s @ JObj [(''action'', JStr ''get_tweets''), (''limit'', JNum 50)] # rest))
    \<and> (field m ''type'' = JStr ''tweets'' \<longrightarrow> tweets (handleMessage m s0) = field m ''data'')"
proof -
  have stored:
    "field m ''type'' = JStr ''tweets'' \<longrightarrow> tweets (handleMessage m s0) = field m ''data''"
    by (auto simp: handleMessage_def dest: typed_message_truthy)
  let ?f = "\<lambda>(i, tweet). TweetCard_element s i tweet"
  have shown: "\<forall>cards. TweetFeed s = Inr cards \<longrightarrow>
            map tweet_prop cards = take 30 xs \<and> length cards \<le> 30"
  proof (intro allI impI)
    fix cards
    assume "TweetFeed s = Inr cards"
    then have all2: "list_all2 (\<lambda>x y. ?f x = Inr y) (enumerate 0 (take 30 xs)) cards"
      by (simp add: TweetFeed_array [OF assms] render_all_Inr)
    then have "list_all2 (\<lambda>x y. tweet_prop y = snd x) (enumerate 0 (take 30 xs)) cards"
      by (rule list_all2_mono) (auto dest: TweetCard_element_tweet)
    then have "map tweet_prop cards = map snd (enumerate 0 (take 30 xs))"
      by (rule list_all2_map_back)
    then have posts: "map tweet_prop cards = take 30 xs"
      by simp
    then have "length cards = length (take 30 xs)"
      by (metis length_map)
    with posts show "map tweet_prop cards = take 30 xs \<and> length cards \<le> 30"
      by simp
  qed
  have rest_unseen: "TweetFeed s = TweetFeed (s\<lparr> tweets := JArr (take 30 xs) \<rparr>)"
    by (simp add: TweetFeed_def assms TweetCard_element_tweets)
  have request: "isConnected s \<and> wsRef s = Some OPEN \<longrightarrow>
         (\<exists>rest. sent (connectedEffect s) =
            sent s @ JObj [(''action'', JStr ''get_tweets''), (''limit'', JNum 50)] # rest)"
    by (simp add: connectedEffect_def sendMessage_def handleStartAnalysis_def Let_def
        split: option.split)
  from shown rest_unseen request stored show ?thesis by blast
qed

text \<open>A list of 31 posts with the ids 1 to 31: the feed is built, for the first 30.\<close>

theorem feed_shows_first_30_witness:
  "\<exists>cards. TweetFeed ((initial [])
               \<lparr> tweets := JArr (map (\<lambda>n. JObj [(''id'', JNum (real (Suc n)))]) [0..<31]) \<rparr>)
             = Inr cards
     \<and> map tweet_prop cards = map (\<lambda>n. JObj [(''id'', JNum (real (Suc n)))]) [0..<30]"
proof -
  let ?post = "\<lambda>n. JObj [(''id'', JNum (real (Suc n)))]"
  let ?xs = "map ?post [0..<31]"
  let ?s = "(initial []) \<lparr> tweets := JArr ?xs \<rparr>"
  have tw: "tweets ?s = JArr ?xs" by simp
  have first: "take 30 ?xs = map ?post [0..<30]"
    by (simp add: take_map)
  have "\<forall>x\<in>set (enumerate 0 (take 30 ?xs)). \<exists>y. (\<lambda>(i, tweet). TweetCard_element ?s i tweet) x = Inr y"
    unfolding first
    by (auto simp: in_set_enumerate_eq TweetCard_element_def js_or_def)
  from render_all_total [OF this] obtain cards where "TweetFeed ?s = Inr cards"
    unfolding TweetFeed_array [OF tw] by blast
  moreover from this feed_shows_first_30 [OF tw] have "map tweet_prop cards = take 30 ?xs"
    by blast
  ultimately show ?thesis unfolding first by blast
qed

subsection \<open>Opening the connection\<close>

text \<open>
  C10, as the claim states it, fails: at an address whose query has a \<^verbatim>\<open>tweet\<close>
  parameter with an empty value, with the status \<^verbatim>\<open>idle\<close>, opening the connection sends
  the two data requests only, no \<^verbatim>\<open>start_analysis\<close>, and leaves the query as it was.
\<close>

theorem empty_tweet_parameter_starts_nothing:
  "URLSearchParams_get (location_search (initial [(''tweet'', [])])) ''tweet'' = Some []
   \<and> status (initial [(''tweet'', [])]) = JStr ''idle''
   \<and> sent (ws_onopen (initial [(''tweet'', [])])) =
       [JObj [(''action'', JStr ''get_tweets''), (''limit'', JNum 50)],
        JObj [(''action'', JStr ''get_volume'')]]
   \<and> location_search (ws_onopen (initial [(''tweet'', [])])) = [(''tweet'', [])]"
  by (simp add: ws_onopen_def connectedEffect_def sendMessage_def URLSearchParams_get_def
      initial_def Let_def)

text \<open>
  C10, amended. When the connection becomes open, the query of the page address has a
  \<^verbatim>\<open>tweet\<close> parameter whose (first) value is not empty, and the status is \<^verbatim>\<open>idle\<close>,
  the client replaces the address by its bare path, which removes the parameter, and
  after the two data requests sends \<^verbatim>\<open>start_analysis\<close> with that value as
  \<^verbatim>\<open>tweet_id\<close> (and \<^verbatim>\<open>tweet_url\<close> \<^verbatim>\<open>null\<close>), with no user action.
\<close>

theorem auto_start_on_open:
  assumes "\<not> isConnected s"
    and "URLSearchParams_get (location_search s) ''tweet'' = Some tweetId"
    and "tweetId \<noteq> []"
    and "status s = JStr ''idle''"
  shows "location_search (ws_onopen s) = []
     \<and> sent (ws_onopen s) =
         sent s @ [JObj [(''action'', JStr ''get_tweets''), (''limit'', JNum 50)],
                   JObj [(''action'', JStr ''get_volume'')],
                   JObj [(''action'', JStr ''start_analysis''), (''tweet_url'', JNull),
                         (''tweet_id'', JStr tweetId)]]"
  using assms
  by (simp add: ws_onopen_def connectedEffect_def sendMessage_def handleStartAnalysis_def
      Let_def)

theorem auto_start_on_open_witness:
  "location_search (ws_onopen (initial [(''tweet'', ''1234567890'')])) = []
   \<and> sent (ws_onopen (initial [(''tweet'', ''1234567890'')])) =
       [JObj [(''action'', JStr ''get_tweets''), (''limit'', JNum 50)],
        JObj [(''action'', JStr ''get_volume'')],
        JObj [(''action'', JStr ''start_analysis''), (''tweet_url'', JNull),
              (''tweet_id'', JStr ''1234567890'')]]"
  using auto_start_on_open [of "initial [(''tweet'', ''1234567890'')]" "''1234567890''"]
  by (simp add: initial_def URLSearchParams_get_def)

subsection \<open>Busy sessions\<close>





end
